theory Spec2Isabelle
  imports Main "HOL-Library.Word"
begin

section \<open>The native library seen from SQLite.hpp\<close>

text \<open>
  SQLite.hpp wraps the C interface of the SQLite engine (sqlite3.h). The engine is
  outside the repository: it is a parameter of the model. A program state is the list of
  the native calls made so far, oldest first; the engine answers a call as a function of
  that list and of the call's arguments, which is any deterministic single-threaded
  engine. Every native entry point used by SQLite.hpp is modelled by a function of its
  own name that asks the engine for the answer and records the call.
\<close>

type_synonym c_int = "32 word"         \<comment> \<open>\<^verbatim>\<open>int\<close>\<close>
type_synonym size_t = "64 word"        \<comment> \<open>\<^verbatim>\<open>size_t\<close> of an LP64 or LLP64 platform\<close>
type_synonym sqlite3_ptr = nat         \<comment> \<open>\<^verbatim>\<open>sqlite3 *\<close>, 0 is \<^verbatim>\<open>nullptr\<close>\<close>
type_synonym sqlite3_stmt_ptr = nat    \<comment> \<open>\<^verbatim>\<open>sqlite3_stmt *\<close>, 0 is \<^verbatim>\<open>nullptr\<close>\<close>

text \<open>
  A \<^verbatim>\<open>wchar_t const *\<close> text is the list of the \<^verbatim>\<open>wchar_t\<close> values before its terminating
  zero. A wide literal \<^verbatim>\<open>L"..."\<close> of ASCII characters has the characters' codes as its
  values. The UTF-16 text that the engine reads or returns is the list of its 16-bit code
  units before the terminating zero unit; for ASCII text these are the characters' codes.
\<close>

type_synonym wstring = "nat list"
type_synonym utf16_string = "nat list"

definition L :: "string \<Rightarrow> wstring" where
  "L s = map of_char s"

definition utf16 :: "string \<Rightarrow> utf16_string" where
  "utf16 s = map of_char s"

text \<open>
  The 16-bit entry points of the engine take a \<^verbatim>\<open>const void *\<close> and read zero-terminated
  UTF-16 in the native byte order at that address. SQLite.hpp hands them a
  \<^verbatim>\<open>wchar_t const *\<close>, so what the engine reads depends on the platform: one \<^verbatim>\<open>wchar_t\<close> of
  \<^verbatim>\<open>sizeof(wchar_t)\<close> bytes lies in memory as \<^verbatim>\<open>sizeof(wchar_t) / 2\<close> units of 16 bits,
  the low one first on a little-endian machine and last on a big-endian one. The read
  stops at the first zero unit; the terminating \<^verbatim>\<open>wchar_t\<close> is all zero units, so the read
  ends inside the array. (A \<^verbatim>\<open>wchar_t\<close> is 2 bytes on Windows and 4 on Linux.)
\<close>

definition wchar_units :: "size_t \<Rightarrow> bool \<Rightarrow> nat \<Rightarrow> nat list" where
  "wchar_units sizeof_wchar_t big_endian c =
     (let units = map (\<lambda>i. c div 65536 ^ i mod 65536) [0 ..< unat sizeof_wchar_t div 2]
      in if big_endian then rev units else units)"

definition read_utf16 :: "size_t \<Rightarrow> bool \<Rightarrow> wstring \<Rightarrow> utf16_string" where
  "read_utf16 sizeof_wchar_t big_endian ws =
     takeWhile (\<lambda>u. u \<noteq> 0) (concat (map (wchar_units sizeof_wchar_t big_endian) (ws @ [0])))"

definition nullptr :: nat where
  "nullptr = 0"

definition SQLITE_OK :: c_int where
  "SQLITE_OK = 0"

definition SQLITE_ROW :: c_int where
  "SQLITE_ROW = 100"

definition SQLITE_DONE :: c_int where
  "SQLITE_DONE = 101"

datatype call =
    Call_open string
  | Call_open16 utf16_string
  | Call_close sqlite3_ptr
  | Call_extended_errcode sqlite3_ptr
  | Call_errmsg sqlite3_ptr
  | Call_prepare_v2 sqlite3_ptr string
  | Call_prepare16_v2 sqlite3_ptr utf16_string
  | Call_finalize sqlite3_stmt_ptr
  | Call_step sqlite3_stmt_ptr
  | Call_db_handle sqlite3_stmt_ptr
  | Call_column_int sqlite3_stmt_ptr c_int
  | Call_column_text sqlite3_stmt_ptr c_int
  | Call_column_text16 sqlite3_stmt_ptr c_int
  | Call_column_bytes sqlite3_stmt_ptr c_int
  | Call_column_bytes16 sqlite3_stmt_ptr c_int

type_synonym trace = "call list"

text \<open>
  The engine's answers. \<open>open_result\<close> and \<open>prepare_result\<close> give the result code and
  the pointer the engine writes through its output parameter. The 16-bit entry points
  answer for the UTF-16 text that the engine reads.
\<close>

record engine =
  open_result :: "trace \<Rightarrow> string \<Rightarrow> c_int \<times> sqlite3_ptr"
  open16_result :: "trace \<Rightarrow> utf16_string \<Rightarrow> c_int \<times> sqlite3_ptr"
  close_result :: "trace \<Rightarrow> sqlite3_ptr \<Rightarrow> c_int"
  extended_errcode_result :: "trace \<Rightarrow> sqlite3_ptr \<Rightarrow> c_int"
  errmsg_result :: "trace \<Rightarrow> sqlite3_ptr \<Rightarrow> string"
  prepare_result :: "trace \<Rightarrow> sqlite3_ptr \<Rightarrow> string \<Rightarrow> c_int \<times> sqlite3_stmt_ptr"
  prepare16_result :: "trace \<Rightarrow> sqlite3_ptr \<Rightarrow> utf16_string \<Rightarrow> c_int \<times> sqlite3_stmt_ptr"
  finalize_result :: "trace \<Rightarrow> sqlite3_stmt_ptr \<Rightarrow> c_int"
  step_result :: "trace \<Rightarrow> sqlite3_stmt_ptr \<Rightarrow> c_int"
  db_handle_result :: "trace \<Rightarrow> sqlite3_stmt_ptr \<Rightarrow> sqlite3_ptr"
  column_int_result :: "trace \<Rightarrow> sqlite3_stmt_ptr \<Rightarrow> c_int \<Rightarrow> c_int"
  column_text_result :: "trace \<Rightarrow> sqlite3_stmt_ptr \<Rightarrow> c_int \<Rightarrow> string option"
  column_text16_result :: "trace \<Rightarrow> sqlite3_stmt_ptr \<Rightarrow> c_int \<Rightarrow> utf16_string option"
  column_bytes_result :: "trace \<Rightarrow> sqlite3_stmt_ptr \<Rightarrow> c_int \<Rightarrow> c_int"
  column_bytes16_result :: "trace \<Rightarrow> sqlite3_stmt_ptr \<Rightarrow> c_int \<Rightarrow> c_int"

definition sqlite3_open :: "engine \<Rightarrow> string \<Rightarrow> trace \<Rightarrow> (c_int \<times> sqlite3_ptr) \<times> trace" where
  "sqlite3_open E filename t = (open_result E t filename, t @ [Call_open filename])"

definition sqlite3_open16 ::
  "size_t \<Rightarrow> bool \<Rightarrow> engine \<Rightarrow> wstring \<Rightarrow> trace \<Rightarrow> (c_int \<times> sqlite3_ptr) \<times> trace" where
  "sqlite3_open16 sizeof_wchar_t big_endian E filename t =
     (let name = read_utf16 sizeof_wchar_t big_endian filename
      in (open16_result E t name, t @ [Call_open16 name]))"

definition sqlite3_close :: "engine \<Rightarrow> sqlite3_ptr \<Rightarrow> trace \<Rightarrow> c_int \<times> trace" where
  "sqlite3_close E db t = (close_result E t db, t @ [Call_close db])"

definition sqlite3_extended_errcode :: "engine \<Rightarrow> sqlite3_ptr \<Rightarrow> trace \<Rightarrow> c_int \<times> trace" where
  "sqlite3_extended_errcode E db t =
     (extended_errcode_result E t db, t @ [Call_extended_errcode db])"

definition sqlite3_errmsg :: "engine \<Rightarrow> sqlite3_ptr \<Rightarrow> trace \<Rightarrow> string \<times> trace" where
  "sqlite3_errmsg E db t = (errmsg_result E t db, t @ [Call_errmsg db])"

definition sqlite3_prepare_v2 ::
  "engine \<Rightarrow> sqlite3_ptr \<Rightarrow> string \<Rightarrow> trace \<Rightarrow> (c_int \<times> sqlite3_stmt_ptr) \<times> trace" where
  "sqlite3_prepare_v2 E db text t = (prepare_result E t db text, t @ [Call_prepare_v2 db text])"

text \<open>With the length argument \<^verbatim>\<open>-1\<close> that SQLite.hpp passes, the text is read to its first zero unit.\<close>

definition sqlite3_prepare16_v2 ::
  "size_t \<Rightarrow> bool \<Rightarrow> engine \<Rightarrow> sqlite3_ptr \<Rightarrow> wstring \<Rightarrow> trace \<Rightarrow>
     (c_int \<times> sqlite3_stmt_ptr) \<times> trace" where
  "sqlite3_prepare16_v2 sizeof_wchar_t big_endian E db text t =
     (let sql = read_utf16 sizeof_wchar_t big_endian text
      in (prepare16_result E t db sql, t @ [Call_prepare16_v2 db sql]))"

definition sqlite3_finalize :: "engine \<Rightarrow> sqlite3_stmt_ptr \<Rightarrow> trace \<Rightarrow> c_int \<times> trace" where
  "sqlite3_finalize E stmt t = (finalize_result E t stmt, t @ [Call_finalize stmt])"

definition sqlite3_step :: "engine \<Rightarrow> sqlite3_stmt_ptr \<Rightarrow> trace \<Rightarrow> c_int \<times> trace" where
  "sqlite3_step E stmt t = (step_result E t stmt, t @ [Call_step stmt])"

definition sqlite3_db_handle :: "engine \<Rightarrow> sqlite3_stmt_ptr \<Rightarrow> trace \<Rightarrow> sqlite3_ptr \<times> trace" where
  "sqlite3_db_handle E stmt t = (db_handle_result E t stmt, t @ [Call_db_handle stmt])"




definition sqlite3_column_bytes ::
  "engine \<Rightarrow> sqlite3_stmt_ptr \<Rightarrow> c_int \<Rightarrow> trace \<Rightarrow> c_int \<times> trace" where
  "sqlite3_column_bytes E stmt column t =
     (column_bytes_result E t stmt column, t @ [Call_column_bytes stmt column])"

definition sqlite3_column_bytes16 ::
  "engine \<Rightarrow> sqlite3_stmt_ptr \<Rightarrow> c_int \<Rightarrow> trace \<Rightarrow> c_int \<times> trace" where
  "sqlite3_column_bytes16 E stmt column t =
     (column_bytes16_result E t stmt column, t @ [Call_column_bytes16 stmt column])"

section \<open>The assert macro of SQLite.hpp\<close>

text \<open>
  SQLite.hpp defines its own \<^verbatim>\<open>assert\<close> (lines 13 to 17):
  \<^verbatim>\<open>
  #ifdef NDEBUG
  #define assert(condition) ((void)0)
  #else
  #define assert(condition) /*implementation defined*/
  #endif
  \<close>
  With \<^verbatim>\<open>NDEBUG\<close> the macro expands to \<^verbatim>\<open>((void)0)\<close>; without it the replacement list
  is a comment, that is, empty. In both configurations the tokens of \<open>condition\<close> are
  dropped by the preprocessor, so the condition is never evaluated: the macro takes the
  condition as an unevaluated computation and leaves the state as it is.
\<close>

definition assert :: "bool \<Rightarrow> 'c \<Rightarrow> trace \<Rightarrow> trace" where
  "assert NDEBUG condition t = (if NDEBUG then t else t)"

section \<open>Handle.hpp\<close>

text \<open>
  Modelled from the spec: Handle.hpp (the class templates \<^verbatim>\<open>Handle\<close> and \<^verbatim>\<open>HandleTraits\<close>)
  is included by SQLite.hpp and is not among the sources. The definitions of this section
  follow sections 3 and 4.1 of the specification: a handle owns one value or the policy's
  sentinel; \<^verbatim>\<open>Get\<close> returns the value; \<^verbatim>\<open>Set\<close> releases a value that is owned and returns
  the slot; the boolean conversion is true iff the handle is not empty; destruction of a
  handle that is not empty invokes the policy's release action once; a swap exchanges the
  two values. The sentinel of a pointer type is \<^verbatim>\<open>nullptr\<close>.
\<close>

record 'v Handle =
  m_value :: 'v

record 'v HandleTraits =
  Invalid :: 'v
  Close :: "'v \<Rightarrow> trace \<Rightarrow> trace"

definition Handle_default :: "'v HandleTraits \<Rightarrow> 'v Handle" where
  "Handle_default Traits = \<lparr>m_value = Invalid Traits\<rparr>"

definition Get :: "'v Handle \<Rightarrow> 'v" where
  "Get h = m_value h"

definition Handle_bool :: "'v HandleTraits \<Rightarrow> 'v Handle \<Rightarrow> bool" where
  "Handle_bool Traits h = (m_value h \<noteq> Invalid Traits)"

text \<open>The release of what a handle owns: the destructor's action, and the first half of \<^verbatim>\<open>Set\<close>.\<close>

definition Handle_Close :: "'v HandleTraits \<Rightarrow> 'v Handle \<Rightarrow> trace \<Rightarrow> 'v Handle \<times> trace" where
  "Handle_Close Traits h t =
     (if Handle_bool Traits h then (\<lparr>m_value = Invalid Traits\<rparr>, Close Traits (m_value h) t)
      else (h, t))"

text \<open>\<^verbatim>\<open>Set()\<close>: the handle after the release; the caller's native call then writes the slot.\<close>

definition Set_slot :: "'v HandleTraits \<Rightarrow> 'v Handle \<Rightarrow> trace \<Rightarrow> 'v Handle \<times> trace" where
  "Set_slot Traits h t = Handle_Close Traits h t"

text \<open>A native call's write of \<open>v\<close> through the slot that \<^verbatim>\<open>Set()\<close> returned.\<close>

definition write_slot :: "'v Handle \<Rightarrow> 'v \<Rightarrow> 'v Handle" where
  "write_slot h v = h\<lparr>m_value := v\<rparr>"

definition Handle_destroy :: "'v HandleTraits \<Rightarrow> 'v Handle \<Rightarrow> trace \<Rightarrow> trace" where
  "Handle_destroy Traits h t = snd (Handle_Close Traits h t)"

definition swap_Handle :: "'v Handle \<Rightarrow> 'v Handle \<Rightarrow> 'v Handle \<times> 'v Handle" where
  "swap_Handle a b = (b, a)"

section \<open>Exception\<close>

record Exception =
  Result :: c_int
  Message :: string

text \<open>
  The constructor \<^verbatim>\<open>Exception(sqlite3 * const connection)\<close>: the members are initialised
  in the order of their declaration, \<^verbatim>\<open>Result\<close> before \<^verbatim>\<open>Message\<close>.
\<close>

definition Exception_ctor :: "engine \<Rightarrow> sqlite3_ptr \<Rightarrow> trace \<Rightarrow> Exception \<times> trace" where
  "Exception_ctor E connection t =
     (let (r, t) = sqlite3_extended_errcode E connection t;
          (m, t) = sqlite3_errmsg E connection t
      in (\<lparr>Result = r, Message = m\<rparr>, t))"

section \<open>Connection\<close>

text \<open>
  A member function is a function of the build configuration (is \<^verbatim>\<open>NDEBUG\<close> defined), the
  engine, its arguments, the object it is called on and the trace. It returns its outcome
  (\<open>Inl\<close> of the exception it throws, or \<open>Inr\<close> of its value; the value itself for a
  \<^verbatim>\<open>noexcept\<close> function), the object afterwards and the trace afterwards.
\<close>

definition ConnectionHandleTraits_Close :: "bool \<Rightarrow> engine \<Rightarrow> sqlite3_ptr \<Rightarrow> trace \<Rightarrow> trace" where
  "ConnectionHandleTraits_Close NDEBUG E v t =
     assert NDEBUG (\<lambda>t. let (r, t) = sqlite3_close E v t in (SQLITE_OK = r, t)) t"

definition ConnectionHandleTraits :: "bool \<Rightarrow> engine \<Rightarrow> sqlite3_ptr HandleTraits" where
  "ConnectionHandleTraits NDEBUG E =
     \<lparr>Invalid = nullptr, Close = ConnectionHandleTraits_Close NDEBUG E\<rparr>"

record Connection =
  m_handle :: "sqlite3_ptr Handle"

text \<open>\<^verbatim>\<open>Connection() noexcept = default\<close>\<close>

definition Connection_default :: "bool \<Rightarrow> engine \<Rightarrow> Connection" where
  "Connection_default NDEBUG E = \<lparr>m_handle = Handle_default (ConnectionHandleTraits NDEBUG E)\<rparr>"

text \<open>The implicit destructor: it destroys the member \<^verbatim>\<open>m_handle\<close>.\<close>

definition Connection_destroy :: "bool \<Rightarrow> engine \<Rightarrow> Connection \<Rightarrow> trace \<Rightarrow> trace" where
  "Connection_destroy NDEBUG E this t =
     Handle_destroy (ConnectionHandleTraits NDEBUG E) (m_handle this) t"

text \<open>\<^verbatim>\<open>explicit operator bool() const noexcept\<close>\<close>

definition Connection_bool ::
  "bool \<Rightarrow> engine \<Rightarrow> Connection \<Rightarrow> trace \<Rightarrow> bool \<times> Connection \<times> trace" where
  "Connection_bool NDEBUG E this t =
     (Handle_bool (ConnectionHandleTraits NDEBUG E) (m_handle this), this, t)"

definition Connection_GetAbi :: "Connection \<Rightarrow> trace \<Rightarrow> sqlite3_ptr \<times> Connection \<times> trace" where
  "Connection_GetAbi this t = (Get (m_handle this), this, t)"

text \<open>
  \<^verbatim>\<open>void ThrowLastError() const\<close>, declared noreturn. The result type is left open:
  the function stands where a value of any type is expected.
\<close>

definition Connection_ThrowLastError ::
  "engine \<Rightarrow> Connection \<Rightarrow> trace \<Rightarrow> (Exception + 'r) \<times> Connection \<times> trace" where
  "Connection_ThrowLastError E this t =
     (let (abi, this, t) = Connection_GetAbi this t;
          (e, t) = Exception_ctor E abi t
      in (Inl e, this, t))"

text \<open>
  \<^verbatim>\<open>InternalOpen(F open, C const * const filename)\<close>. The local \<^verbatim>\<open>temp\<close> is destroyed when
  the function is left, by the exception or at its end.
\<close>

definition InternalOpen ::
  "bool \<Rightarrow> engine \<Rightarrow> ('f \<Rightarrow> trace \<Rightarrow> (c_int \<times> sqlite3_ptr) \<times> trace) \<Rightarrow> 'f \<Rightarrow>
     Connection \<Rightarrow> trace \<Rightarrow> (Exception + unit) \<times> Connection \<times> trace" where
  "InternalOpen NDEBUG E open filename this t =
     (let temp = Connection_default NDEBUG E;
          (slot, t) = Set_slot (ConnectionHandleTraits NDEBUG E) (m_handle temp) t;
          ((rc, p), t) = open filename t;
          temp = temp\<lparr>m_handle := write_slot slot p\<rparr>
      in case (if SQLITE_OK \<noteq> rc then Connection_ThrowLastError E temp t
               else (Inr (), temp, t)) of
           (Inl e, temp, t) \<Rightarrow> (Inl e, this, Connection_destroy NDEBUG E temp t)
         | (Inr _, temp, t) \<Rightarrow>
             (let (a, b) = swap_Handle (m_handle this) (m_handle temp);
                  this = this\<lparr>m_handle := a\<rparr>;
                  temp = temp\<lparr>m_handle := b\<rparr>
              in (Inr (), this, Connection_destroy NDEBUG E temp t)))"

text \<open>\<^verbatim>\<open>void Open(char const * const filename)\<close>\<close>

definition Open ::
  "bool \<Rightarrow> engine \<Rightarrow> string \<Rightarrow> Connection \<Rightarrow> trace \<Rightarrow> (Exception + unit) \<times> Connection \<times> trace" where
  "Open NDEBUG E filename this t = InternalOpen NDEBUG E (sqlite3_open E) filename this t"

text \<open>\<^verbatim>\<open>void Open(wchar_t const * const filename)\<close>\<close>

definition Open_wide ::
  "bool \<Rightarrow> size_t \<Rightarrow> bool \<Rightarrow> engine \<Rightarrow> wstring \<Rightarrow> Connection \<Rightarrow> trace \<Rightarrow>
     (Exception + unit) \<times> Connection \<times> trace" where
  "Open_wide NDEBUG sizeof_wchar_t big_endian E filename this t =
     InternalOpen NDEBUG E (sqlite3_open16 sizeof_wchar_t big_endian E) filename this t"

text \<open>
  \<^verbatim>\<open>template <typename C> explicit Connection(C const * const filename)\<close>, for \<^verbatim>\<open>char\<close>
  and for \<^verbatim>\<open>wchar_t\<close>. When \<^verbatim>\<open>Open\<close> throws, the member constructed so far is
  destroyed and no object exists.
\<close>

definition Connection_ctor ::
  "bool \<Rightarrow> engine \<Rightarrow> string \<Rightarrow> trace \<Rightarrow> (Exception + Connection) \<times> trace" where
  "Connection_ctor NDEBUG E filename t =
     (case Open NDEBUG E filename (Connection_default NDEBUG E) t of
        (Inl e, this, t) \<Rightarrow> (Inl e, Connection_destroy NDEBUG E this t)
      | (Inr _, this, t) \<Rightarrow> (Inr this, t))"

definition Connection_ctor_wide ::
  "bool \<Rightarrow> size_t \<Rightarrow> bool \<Rightarrow> engine \<Rightarrow> wstring \<Rightarrow> trace \<Rightarrow> (Exception + Connection) \<times> trace" where
  "Connection_ctor_wide NDEBUG sizeof_wchar_t big_endian E filename t =
     (case Open_wide NDEBUG sizeof_wchar_t big_endian E filename (Connection_default NDEBUG E) t of
        (Inl e, this, t) \<Rightarrow> (Inl e, Connection_destroy NDEBUG E this t)
      | (Inr _, this, t) \<Rightarrow> (Inr this, t))"

text \<open>\<^verbatim>\<open>static Connection Memory()\<close>: the returned object is the one constructed.\<close>

definition Memory :: "bool \<Rightarrow> engine \<Rightarrow> trace \<Rightarrow> (Exception + Connection) \<times> trace" where
  "Memory NDEBUG E t = Connection_ctor NDEBUG E '':memory:'' t"

definition WideMemory ::
  "bool \<Rightarrow> size_t \<Rightarrow> bool \<Rightarrow> engine \<Rightarrow> trace \<Rightarrow> (Exception + Connection) \<times> trace" where
  "WideMemory NDEBUG sizeof_wchar_t big_endian E t =
     Connection_ctor_wide NDEBUG sizeof_wchar_t big_endian E (L '':memory:'') t"

section \<open>Reader\<close>




definition GetStringLength ::
  "('T \<Rightarrow> trace \<Rightarrow> sqlite3_stmt_ptr \<times> 'T \<times> trace) \<Rightarrow> engine \<Rightarrow> c_int \<Rightarrow> 'T \<Rightarrow> trace \<Rightarrow>
     c_int \<times> 'T \<times> trace" where
  "GetStringLength T_GetAbi E column this t =
     (let (abi, this, t) = T_GetAbi this t;
          (v, t) = sqlite3_column_bytes E abi column t
      in (v, this, t))"

text \<open>
  \<^verbatim>\<open>sqlite3_column_bytes16(...) / sizeof(wchar_t)\<close>: the \<^verbatim>\<open>int\<close> is converted to
  \<^verbatim>\<open>size_t\<close> (sign extension), the division is unsigned, and the quotient is converted
  back to the \<^verbatim>\<open>int\<close> the function returns (truncation).
\<close>

definition GetWideStringLength ::
  "size_t \<Rightarrow> ('T \<Rightarrow> trace \<Rightarrow> sqlite3_stmt_ptr \<times> 'T \<times> trace) \<Rightarrow> engine \<Rightarrow> c_int \<Rightarrow> 'T \<Rightarrow> trace \<Rightarrow>
     c_int \<times> 'T \<times> trace" where
  "GetWideStringLength sizeof_wchar_t T_GetAbi E column this t =
     (let (abi, this, t) = T_GetAbi this t;
          (v, t) = sqlite3_column_bytes16 E abi column t
      in (ucast ((scast v :: size_t) div sizeof_wchar_t), this, t))"

section \<open>Statement\<close>

definition StatementHandleTraits_Close ::
  "bool \<Rightarrow> engine \<Rightarrow> sqlite3_stmt_ptr \<Rightarrow> trace \<Rightarrow> trace" where
  "StatementHandleTraits_Close NDEBUG E v t =
     assert NDEBUG (\<lambda>t. let (r, t) = sqlite3_finalize E v t in (SQLITE_OK = r, t)) t"

definition StatementHandleTraits :: "bool \<Rightarrow> engine \<Rightarrow> sqlite3_stmt_ptr HandleTraits" where
  "StatementHandleTraits NDEBUG E =
     \<lparr>Invalid = nullptr, Close = StatementHandleTraits_Close NDEBUG E\<rparr>"

record Statement =
  stmt_handle :: "sqlite3_stmt_ptr Handle"   \<comment> \<open>the member \<^verbatim>\<open>m_handle\<close> of \<^verbatim>\<open>Statement\<close>\<close>

definition Statement_default :: "bool \<Rightarrow> engine \<Rightarrow> Statement" where
  "Statement_default NDEBUG E = \<lparr>stmt_handle = Handle_default (StatementHandleTraits NDEBUG E)\<rparr>"

definition Statement_destroy :: "bool \<Rightarrow> engine \<Rightarrow> Statement \<Rightarrow> trace \<Rightarrow> trace" where
  "Statement_destroy NDEBUG E this t =
     Handle_destroy (StatementHandleTraits NDEBUG E) (stmt_handle this) t"

definition Statement_bool ::
  "bool \<Rightarrow> engine \<Rightarrow> Statement \<Rightarrow> trace \<Rightarrow> bool \<times> Statement \<times> trace" where
  "Statement_bool NDEBUG E this t =
     (Handle_bool (StatementHandleTraits NDEBUG E) (stmt_handle this), this, t)"

definition Statement_GetAbi :: "Statement \<Rightarrow> trace \<Rightarrow> sqlite3_stmt_ptr \<times> Statement \<times> trace" where
  "Statement_GetAbi this t = (Get (stmt_handle this), this, t)"

definition Statement_ThrowLastError ::
  "engine \<Rightarrow> Statement \<Rightarrow> trace \<Rightarrow> (Exception + 'r) \<times> Statement \<times> trace" where
  "Statement_ThrowLastError E this t =
     (let (abi, this, t) = Statement_GetAbi this t;
          (db, t) = sqlite3_db_handle E abi t;
          (e, t) = Exception_ctor E db t
      in (Inl e, this, t))"

text \<open>
  \<^verbatim>\<open>InternalPrepare(Connection const & connection, F prepare, C const * const text)\<close>.
  The connection is passed by reference to const and is the same afterwards.
\<close>

definition InternalPrepare ::
  "bool \<Rightarrow> engine \<Rightarrow> Connection \<Rightarrow> (sqlite3_ptr \<Rightarrow> 'f \<Rightarrow> trace \<Rightarrow> (c_int \<times> sqlite3_stmt_ptr) \<times> trace) \<Rightarrow>
     'f \<Rightarrow> Statement \<Rightarrow> trace \<Rightarrow> (Exception + unit) \<times> Statement \<times> trace" where
  "InternalPrepare NDEBUG E connection prepare text this t =
     (let t = assert NDEBUG (Connection_bool NDEBUG E connection) t;
          (db, connection, t) = Connection_GetAbi connection t;
          (slot, t) = Set_slot (StatementHandleTraits NDEBUG E) (stmt_handle this) t;
          ((rc, p), t) = prepare db text t;
          this = this\<lparr>stmt_handle := write_slot slot p\<rparr>
      in if SQLITE_OK \<noteq> rc
         then (case Connection_ThrowLastError E connection t of (r, connection, t) \<Rightarrow> (r, this, t))
         else (Inr (), this, t))"

definition Prepare ::
  "bool \<Rightarrow> engine \<Rightarrow> Connection \<Rightarrow> string \<Rightarrow> Statement \<Rightarrow> trace \<Rightarrow>
     (Exception + unit) \<times> Statement \<times> trace" where
  "Prepare NDEBUG E connection text this t =
     InternalPrepare NDEBUG E connection (sqlite3_prepare_v2 E) text this t"

definition Prepare_wide ::
  "bool \<Rightarrow> size_t \<Rightarrow> bool \<Rightarrow> engine \<Rightarrow> Connection \<Rightarrow> wstring \<Rightarrow> Statement \<Rightarrow> trace \<Rightarrow>
     (Exception + unit) \<times> Statement \<times> trace" where
  "Prepare_wide NDEBUG sizeof_wchar_t big_endian E connection text this t =
     InternalPrepare NDEBUG E connection (sqlite3_prepare16_v2 sizeof_wchar_t big_endian E)
       text this t"

text \<open>\<^verbatim>\<open>bool Step() const\<close>\<close>

definition Step :: "engine \<Rightarrow> Statement \<Rightarrow> trace \<Rightarrow> (Exception + bool) \<times> Statement \<times> trace" where
  "Step E this t =
     (let (abi, this, t) = Statement_GetAbi this t;
          (result, t) = sqlite3_step E abi t
      in if result = SQLITE_ROW then (Inr True, this, t)
         else if result = SQLITE_DONE then (Inr False, this, t)
         else Statement_ThrowLastError E this t)"

text \<open>\<^verbatim>\<open>void Execute() const { assert(!Step()); }\<close>\<close>

definition Execute ::
  "bool \<Rightarrow> engine \<Rightarrow> Statement \<Rightarrow> trace \<Rightarrow> (Exception + unit) \<times> Statement \<times> trace" where
  "Execute NDEBUG E this t =
     (let t = assert NDEBUG (\<lambda>t. case Step E this t of (r, this, t) \<Rightarrow> (map_sum id Not r, this, t)) t
      in (Inr (), this, t))"




definition Statement_GetStringLength ::
  "engine \<Rightarrow> c_int \<Rightarrow> Statement \<Rightarrow> trace \<Rightarrow> c_int \<times> Statement \<times> trace" where
  "Statement_GetStringLength E column this t = GetStringLength Statement_GetAbi E column this t"

definition Statement_GetWideStringLength ::
  "size_t \<Rightarrow> engine \<Rightarrow> c_int \<Rightarrow> Statement \<Rightarrow> trace \<Rightarrow> c_int \<times> Statement \<times> trace" where
  "Statement_GetWideStringLength sizeof_wchar_t E column this t =
     GetWideStringLength sizeof_wchar_t Statement_GetAbi E column this t"

section \<open>A concrete engine and a concrete scope\<close>

text \<open>
  An engine for the concrete runs below. It opens \<^verbatim>\<open>:memory:\<close> as connection 1 and fails
  to open any other narrow path with code 14 (\<^verbatim>\<open>SQLITE_CANTOPEN\<close>), handing out
  connection 2, which holds the error. Through the 16-bit entry point it also opens the
  file named \<^verbatim>\<open>:\<close> in the working directory, as connection 3. It compiles \<^verbatim>\<open>SELECT 1\<close> as statement 5, which yields one row
  and is then done; any other text is error 1, and a null connection is error 21
  (\<^verbatim>\<open>SQLITE_MISUSE\<close>). For a null connection the error code is 7 and the message
  \<^verbatim>\<open>out of memory\<close>, as SQLite answers.
\<close>

definition demo_engine :: engine where
  "demo_engine = \<lparr>
     open_result = (\<lambda>t f. if f = '':memory:'' then (SQLITE_OK, 1) else (14, 2)),
     open16_result = (\<lambda>t f. if f = utf16 '':memory:'' then (SQLITE_OK, 1)
                              else if f = utf16 '':'' then (SQLITE_OK, 3)
                              else (14, 2)),
     close_result = (\<lambda>t db. SQLITE_OK),
     extended_errcode_result = (\<lambda>t db. if db = nullptr then 7 else if db = 2 then 14 else 1),
     errmsg_result = (\<lambda>t db. if db = nullptr then ''out of memory''
                              else if db = 2 then ''unable to open database file''
                              else ''SQL logic error''),
     prepare_result = (\<lambda>t db text. if db = nullptr then (21, nullptr)
                                   else if text = ''SELECT 1'' then (SQLITE_OK, 5)
                                   else (1, nullptr)),
     prepare16_result = (\<lambda>t db text. if db = nullptr then (21, nullptr)
                                     else if text = utf16 ''SELECT 1'' then (SQLITE_OK, 5)
                                     else (1, nullptr)),
     finalize_result = (\<lambda>t stmt. SQLITE_OK),
     step_result = (\<lambda>t stmt. if stmt = 5
                              then (if Call_step 5 \<in> set t then SQLITE_DONE else SQLITE_ROW)
                              else 21),
     db_handle_result = (\<lambda>t stmt. if stmt = nullptr then nullptr else 1),
     column_int_result = (\<lambda>t stmt column. 1),
     column_text_result = (\<lambda>t stmt column. Some ''1''),
     column_text16_result = (\<lambda>t stmt column. Some (utf16 ''1'')),
     column_bytes_result = (\<lambda>t stmt column. 1),
     column_bytes16_result = (\<lambda>t stmt column. 12)\<rparr>"

definition demo_connection :: Connection where
  "demo_connection = \<lparr>m_handle = \<lparr>m_value = 1\<rparr>\<rparr>"

definition demo_statement :: Statement where
  "demo_statement = \<lparr>stmt_handle = \<lparr>m_value = 5\<rparr>\<rparr>"

text \<open>
  A caller with one scope, and the trace when the scope is left:
  \<^verbatim>\<open>
  {
      Connection c = Connection::Memory();
      Statement s;
      s.Prepare(c, "SELECT 1");
  }
  \<close>
  The locals are destroyed in the reverse order of their construction, also when
  \<^verbatim>\<open>Prepare\<close> throws; when \<^verbatim>\<open>Memory\<close> throws there is no local yet.
\<close>

definition scope_example :: "bool \<Rightarrow> engine \<Rightarrow> trace" where
  "scope_example NDEBUG E =
     (case Memory NDEBUG E [] of
        (Inl e, t) \<Rightarrow> t
      | (Inr c, t) \<Rightarrow>
          (case Prepare NDEBUG E c ''SELECT 1'' (Statement_default NDEBUG E) t of
             (r, s, t) \<Rightarrow> Connection_destroy NDEBUG E c (Statement_destroy NDEBUG E s t)))"

section \<open>Basic facts\<close>

lemma Connection_destroy_trace: "Connection_destroy NDEBUG E this t = t"
  by (simp add: Connection_destroy_def Handle_destroy_def Handle_Close_def
      ConnectionHandleTraits_def ConnectionHandleTraits_Close_def assert_def)

lemma Statement_destroy_trace: "Statement_destroy NDEBUG E this t = t"
  by (simp add: Statement_destroy_def Handle_destroy_def Handle_Close_def
      StatementHandleTraits_def StatementHandleTraits_Close_def assert_def)

lemma Set_slot_Connection:
  "Set_slot (ConnectionHandleTraits NDEBUG E) h t = (\<lparr>m_value = nullptr\<rparr>, t)"
  by (cases h)
     (simp add: Set_slot_def Handle_Close_def Handle_bool_def ConnectionHandleTraits_def
        ConnectionHandleTraits_Close_def assert_def)

lemma Set_slot_Statement:
  "Set_slot (StatementHandleTraits NDEBUG E) h t = (\<lparr>m_value = nullptr\<rparr>, t)"
  by (cases h)
     (simp add: Set_slot_def Handle_Close_def Handle_bool_def StatementHandleTraits_def
        StatementHandleTraits_Close_def assert_def)

lemma Connection_ThrowLastError_eq:
  "Connection_ThrowLastError E this t =
     (Inl \<lparr>Result = extended_errcode_result E t (m_value (m_handle this)),
           Message = errmsg_result E (t @ [Call_extended_errcode (m_value (m_handle this))])
                       (m_value (m_handle this))\<rparr>,
      this,
      t @ [Call_extended_errcode (m_value (m_handle this)), Call_errmsg (m_value (m_handle this))])"
  by (simp add: Connection_ThrowLastError_def Connection_GetAbi_def Get_def Exception_ctor_def
      sqlite3_extended_errcode_def sqlite3_errmsg_def)

lemma Statement_ThrowLastError_eq:
  "Statement_ThrowLastError E this t =
     (let stmt = m_value (stmt_handle this);
          db = db_handle_result E t stmt;
          t1 = t @ [Call_db_handle stmt]
      in (Inl \<lparr>Result = extended_errcode_result E t1 db,
                Message = errmsg_result E (t1 @ [Call_extended_errcode db]) db\<rparr>,
          this,
          t1 @ [Call_extended_errcode db, Call_errmsg db]))"
  by (simp add: Statement_ThrowLastError_def Statement_GetAbi_def Get_def Exception_ctor_def
      sqlite3_db_handle_def sqlite3_extended_errcode_def sqlite3_errmsg_def Let_def)

text \<open>
  \<^verbatim>\<open>InternalOpen\<close> when the native open fails: the exception is built from the pointer the
  engine wrote into the temporary, the object is as before, and the only native calls
  after the open are the two of the exception's constructor.
\<close>

lemma InternalOpen_failure:
  assumes "open filename t = ((rc, p), t')" and "rc \<noteq> SQLITE_OK"
  shows "InternalOpen NDEBUG E open filename this t =
     (Inl \<lparr>Result = extended_errcode_result E t' p,
           Message = errmsg_result E (t' @ [Call_extended_errcode p]) p\<rparr>,
      this,
      t' @ [Call_extended_errcode p, Call_errmsg p])"
  using assms
  by (simp add: InternalOpen_def Set_slot_Connection Connection_ThrowLastError_eq
      Connection_destroy_trace write_slot_def Connection_default_def Let_def)

text \<open>\<^verbatim>\<open>InternalOpen\<close> when the native open succeeds: the object owns the new pointer.\<close>

lemma InternalOpen_success:
  assumes "open filename t = ((SQLITE_OK, p), t')"
  shows "InternalOpen NDEBUG E open filename this t =
     (Inr (), this\<lparr>m_handle := \<lparr>m_value = p\<rparr>\<rparr>, t')"
  using assms
  by (simp add: InternalOpen_def Set_slot_Connection swap_Handle_def
      Connection_destroy_trace write_slot_def Connection_default_def Let_def)

text \<open>
  \<^verbatim>\<open>InternalPrepare\<close> when the native prepare fails: the exception is built from the
  connection's pointer, and the statement holds what the engine wrote.
\<close>

lemma InternalPrepare_failure:
  assumes "prepare (m_value (m_handle connection)) text t = ((rc, p), t')" and "rc \<noteq> SQLITE_OK"
  shows "InternalPrepare NDEBUG E connection prepare text this t =
     (Inl \<lparr>Result = extended_errcode_result E t' (m_value (m_handle connection)),
           Message = errmsg_result E (t' @ [Call_extended_errcode (m_value (m_handle connection))])
                       (m_value (m_handle connection))\<rparr>,
      this\<lparr>stmt_handle := \<lparr>m_value = p\<rparr>\<rparr>,
      t' @ [Call_extended_errcode (m_value (m_handle connection)),
            Call_errmsg (m_value (m_handle connection))])"
  using assms
  by (simp add: InternalPrepare_def assert_def Connection_GetAbi_def Get_def Set_slot_Statement
      Connection_ThrowLastError_eq write_slot_def Let_def)

lemma InternalPrepare_success:
  assumes "prepare (m_value (m_handle connection)) text t = ((SQLITE_OK, p), t')"
  shows "InternalPrepare NDEBUG E connection prepare text this t =
     (Inr (), this\<lparr>stmt_handle := \<lparr>m_value = p\<rparr>\<rparr>, t')"
  using assms
  by (simp add: InternalPrepare_def assert_def Connection_GetAbi_def Get_def Set_slot_Statement
      write_slot_def Let_def)

lemma Execute_eq: "Execute NDEBUG E this t = (Inr (), this, t)"
  by (simp add: Execute_def assert_def)

lemma sint_wide_length:
  fixes v :: c_int and w :: size_t
  assumes "0 \<le> sint v" and "0 < w"
  shows "sint (ucast ((scast v :: size_t) div w) :: c_int) = sint v div uint w"
proof -
  have lt: "sint v < 2 ^ 31"
    using sint_lt [of v] by simp
  have "uint (scast v :: size_t) = sint v mod 2 ^ 64"
    unfolding scast_eq uint_word_of_int by simp
  also have "\<dots> = sint v"
    using assms(1) lt by simp
  finally have up: "uint (scast v :: size_t) = sint v" .
  have q: "uint ((scast v :: size_t) div w) = sint v div uint w"
    by (simp add: uint_div_distrib up)
  have pos: "0 < uint w"
    using assms(2) by (simp add: word_less_def)
  have q0: "0 \<le> sint v div uint w"
    using assms(1) pos by (simp add: pos_imp_zdiv_nonneg_iff)
  have "sint v div uint w \<le> sint v"
    using zdiv_mono2 [of "sint v" 1 "uint w"] assms(1) pos by simp
  with lt have q1: "sint v div uint w < 2 ^ 31"
    by linarith
  have "sint (ucast ((scast v :: size_t) div w) :: c_int)
          = signed_take_bit 31 (sint v div uint w)"
    using signed_ucast_eq [where 'a = int and 'c = 32 and w = "(scast v :: size_t) div w"]
    by (simp add: q)
  also have "\<dots> = sint v div uint w"
    using q0 q1 by (simp add: signed_take_bit_int_eq_self)
  finally show ?thesis .
qed

text \<open>What the engine reads at the address of \<^verbatim>\<open>L":memory:"\<close>, by the size of \<^verbatim>\<open>wchar_t\<close>.\<close>

lemma wchar_units_2: "wchar_units 2 big_endian c = [c mod 65536]"
  by (simp add: wchar_units_def Let_def)

lemma wchar_units_4:
  "wchar_units 4 big_endian c =
     (if big_endian then [c div 65536 mod 65536, c mod 65536]
      else [c mod 65536, c div 65536 mod 65536])"
  by (simp add: wchar_units_def upt_rec Let_def)

lemma read_utf16_memory_2: "read_utf16 2 big_endian (L '':memory:'') = utf16 '':memory:''"
  by (simp add: read_utf16_def L_def utf16_def wchar_units_2)

lemma read_utf16_memory_4:
  "read_utf16 4 big_endian (L '':memory:'') = (if big_endian then [] else utf16 '':'')"
  by (simp add: read_utf16_def L_def utf16_def wchar_units_4)

text \<open>
  On a platform with a 2-byte \<^verbatim>\<open>wchar_t\<close>, a wide text of non-zero values below 65536 is
  read as it is; on a little-endian platform with a 4-byte \<^verbatim>\<open>wchar_t\<close>, only its first
  character is read.
\<close>

lemma read_utf16_2:
  assumes "list_all (\<lambda>c. 0 < c \<and> c < 65536) ws"
  shows "read_utf16 2 big_endian ws = ws"
proof -
  have "concat (map (wchar_units 2 big_endian) (ws @ [0])) = ws @ [0]"
    using assms by (induction ws) (simp_all add: wchar_units_2)
  moreover have "takeWhile (\<lambda>u. u \<noteq> 0) (ws @ [0]) = ws"
    using assms by (induction ws) auto
  ultimately show ?thesis by (simp add: read_utf16_def)
qed

lemma read_utf16_4_little_endian:
  assumes "0 < c" and "c < 65536"
  shows "read_utf16 4 False (c # ws) = [c]"
  using assms by (simp add: read_utf16_def wchar_units_4)

text \<open>\<^verbatim>\<open>Memory\<close> and \<^verbatim>\<open>WideMemory\<close> on every engine, by the engine's answer to the open.\<close>

lemma Memory_eq:
  assumes "open_result E t '':memory:'' = (rc, q)"
  shows "Memory NDEBUG E t =
     (if rc = SQLITE_OK then (Inr \<lparr>m_handle = \<lparr>m_value = q\<rparr>\<rparr>, t @ [Call_open '':memory:''])
      else (Inl \<lparr>Result = extended_errcode_result E (t @ [Call_open '':memory:'']) q,
                 Message = errmsg_result E (t @ [Call_open '':memory:'', Call_extended_errcode q]) q\<rparr>,
            t @ [Call_open '':memory:'', Call_extended_errcode q, Call_errmsg q]))"
  using assms
    InternalOpen_success [of "sqlite3_open E" "'':memory:''" t q "t @ [Call_open '':memory:'']"
      NDEBUG E "Connection_default NDEBUG E"]
    InternalOpen_failure [of "sqlite3_open E" "'':memory:''" t rc q "t @ [Call_open '':memory:'']"
      NDEBUG E "Connection_default NDEBUG E"]
  by (simp add: Memory_def Connection_ctor_def Open_def sqlite3_open_def Connection_destroy_trace
      Connection_default_def)

lemma WideMemory_eq:
  assumes "read_utf16 sizeof_wchar_t big_endian (L '':memory:'') = name"
    and "open16_result E t name = (rc, q)"
  shows "WideMemory NDEBUG sizeof_wchar_t big_endian E t =
     (if rc = SQLITE_OK then (Inr \<lparr>m_handle = \<lparr>m_value = q\<rparr>\<rparr>, t @ [Call_open16 name])
      else (Inl \<lparr>Result = extended_errcode_result E (t @ [Call_open16 name]) q,
                 Message = errmsg_result E (t @ [Call_open16 name, Call_extended_errcode q]) q\<rparr>,
            t @ [Call_open16 name, Call_extended_errcode q, Call_errmsg q]))"
  using assms
    InternalOpen_success [of "sqlite3_open16 sizeof_wchar_t big_endian E" "L '':memory:''" t q
      "t @ [Call_open16 name]" NDEBUG E "Connection_default NDEBUG E"]
    InternalOpen_failure [of "sqlite3_open16 sizeof_wchar_t big_endian E" "L '':memory:''" t rc q
      "t @ [Call_open16 name]" NDEBUG E "Connection_default NDEBUG E"]
  by (simp add: WideMemory_def Connection_ctor_wide_def Open_wide_def sqlite3_open16_def
      Connection_destroy_trace Connection_default_def Let_def)

text \<open>
  The connection that \<^verbatim>\<open>Memory\<close> returns on the concrete engine is used by \<^verbatim>\<open>Prepare\<close> and
  \<^verbatim>\<open>Step\<close>: the statement is compiled on handle 1 and stepped to its row and to its end,
  and the only open in the trace is the one of \<^verbatim>\<open>:memory:\<close>.
\<close>

lemma Memory_Prepare_Step:
  "Memory NDEBUG demo_engine [] = (Inr demo_connection, [Call_open '':memory:''])"
  "Prepare NDEBUG demo_engine demo_connection ''SELECT 1'' (Statement_default NDEBUG demo_engine)
       [Call_open '':memory:'']
     = (Inr (), demo_statement, [Call_open '':memory:'', Call_prepare_v2 1 ''SELECT 1''])"
  "Step demo_engine demo_statement [Call_open '':memory:'', Call_prepare_v2 1 ''SELECT 1'']
     = (Inr True, demo_statement,
        [Call_open '':memory:'', Call_prepare_v2 1 ''SELECT 1'', Call_step 5])"
  "Step demo_engine demo_statement
       [Call_open '':memory:'', Call_prepare_v2 1 ''SELECT 1'', Call_step 5]
     = (Inr False, demo_statement,
        [Call_open '':memory:'', Call_prepare_v2 1 ''SELECT 1'', Call_step 5, Call_step 5])"
proof -
  show "Memory NDEBUG demo_engine [] = (Inr demo_connection, [Call_open '':memory:''])"
    using Memory_eq [of demo_engine "[]" SQLITE_OK 1 NDEBUG]
    by (simp add: demo_engine_def demo_connection_def)
  show "Prepare NDEBUG demo_engine demo_connection ''SELECT 1'' (Statement_default NDEBUG demo_engine)
       [Call_open '':memory:'']
     = (Inr (), demo_statement, [Call_open '':memory:'', Call_prepare_v2 1 ''SELECT 1''])"
    by (simp add: Prepare_def demo_statement_def Statement_default_def
        InternalPrepare_success [where p = 5
          and t' = "[Call_open '':memory:'', Call_prepare_v2 1 ''SELECT 1'']"]
        sqlite3_prepare_v2_def demo_engine_def demo_connection_def nullptr_def)
  show "Step demo_engine demo_statement [Call_open '':memory:'', Call_prepare_v2 1 ''SELECT 1'']
     = (Inr True, demo_statement,
        [Call_open '':memory:'', Call_prepare_v2 1 ''SELECT 1'', Call_step 5])"
    by (simp add: Step_def Statement_GetAbi_def Get_def sqlite3_step_def demo_statement_def
        demo_engine_def SQLITE_ROW_def)
  show "Step demo_engine demo_statement
       [Call_open '':memory:'', Call_prepare_v2 1 ''SELECT 1'', Call_step 5]
     = (Inr False, demo_statement,
        [Call_open '':memory:'', Call_prepare_v2 1 ''SELECT 1'', Call_step 5, Call_step 5])"
    by (simp add: Step_def Statement_GetAbi_def Get_def sqlite3_step_def demo_statement_def
        demo_engine_def SQLITE_ROW_def SQLITE_DONE_def)
qed

section \<open>The claims\<close>

subsection \<open>Release at destruction\<close>

text \<open>
  C1. The claim: for every Connection and Statement whose handle is not the sentinel at
  destruction, \<^verbatim>\<open>sqlite3_close\<close> (for a connection) or \<^verbatim>\<open>sqlite3_finalize\<close> (for a
  statement) is invoked exactly once in the whole program. The code does not do this:
  both release actions make their native call inside \<^verbatim>\<open>assert(...)\<close>, and the macro of
  SQLite.hpp drops its argument with and without \<^verbatim>\<open>NDEBUG\<close>. In the scope of
  \<open>scope_example\<close>, on the concrete engine, the connection is opened as handle 1 and the
  statement prepared as handle 5, both objects convert to true, and when the scope has
  been left the trace holds the open and the prepare only: \<^verbatim>\<open>sqlite3_close(1)\<close> and
  \<^verbatim>\<open>sqlite3_finalize(5)\<close> were invoked zero times.
\<close>

theorem scope_exit_calls_no_release:
  "scope_example NDEBUG demo_engine = [Call_open '':memory:'', Call_prepare_v2 1 ''SELECT 1''] \<and>
   Memory NDEBUG demo_engine [] = (Inr demo_connection, [Call_open '':memory:'']) \<and>
   Prepare NDEBUG demo_engine demo_connection ''SELECT 1'' (Statement_default NDEBUG demo_engine)
       [Call_open '':memory:'']
     = (Inr (), demo_statement, [Call_open '':memory:'', Call_prepare_v2 1 ''SELECT 1'']) \<and>
   fst (Connection_bool NDEBUG demo_engine demo_connection t) \<and>
   fst (Statement_bool NDEBUG demo_engine demo_statement t) \<and>
   count_list (scope_example NDEBUG demo_engine) (Call_close 1) = 0 \<and>
   count_list (scope_example NDEBUG demo_engine) (Call_finalize 5) = 0"
proof -
  have m: "Memory NDEBUG demo_engine [] = (Inr demo_connection, [Call_open '':memory:''])"
    by (simp add: Memory_def Connection_ctor_def Open_def demo_connection_def Connection_default_def
        InternalOpen_success [where p = 1 and t' = "[Call_open '':memory:'']"]
        sqlite3_open_def demo_engine_def)
  have p: "Prepare NDEBUG demo_engine demo_connection ''SELECT 1'' (Statement_default NDEBUG demo_engine)
       [Call_open '':memory:'']
     = (Inr (), demo_statement, [Call_open '':memory:'', Call_prepare_v2 1 ''SELECT 1''])"
    by (simp add: Prepare_def demo_statement_def Statement_default_def
        InternalPrepare_success [where p = 5 and t' = "[Call_open '':memory:'', Call_prepare_v2 1 ''SELECT 1'']"]
        sqlite3_prepare_v2_def demo_engine_def demo_connection_def nullptr_def)
  have s: "scope_example NDEBUG demo_engine = [Call_open '':memory:'', Call_prepare_v2 1 ''SELECT 1'']"
    by (simp add: scope_example_def m p Connection_destroy_trace Statement_destroy_trace)
  have b: "fst (Connection_bool NDEBUG demo_engine demo_connection t)"
    by (simp add: Connection_bool_def Handle_bool_def ConnectionHandleTraits_def demo_connection_def
        nullptr_def)
  have c: "fst (Statement_bool NDEBUG demo_engine demo_statement t)"
    by (simp add: Statement_bool_def Handle_bool_def StatementHandleTraits_def demo_statement_def
        nullptr_def)
  show ?thesis
    by (simp add: s m p b c)
qed

subsection \<open>Execute\<close>

text \<open>
  C2. The claim: \<^verbatim>\<open>Execute()\<close> calls \<^verbatim>\<open>Step()\<close> exactly once and signals a contract violation
  when \<^verbatim>\<open>Step()\<close> returns true. The code does not do this: the call of \<^verbatim>\<open>Step()\<close> is the
  argument of \<^verbatim>\<open>assert\<close>, which drops it. On the concrete engine the prepared statement 5
  has a row (\<^verbatim>\<open>Step()\<close> returns true and records its native call), and \<^verbatim>\<open>Execute()\<close>
  on the same statement in the same state returns normally with the trace as it was:
  no \<^verbatim>\<open>sqlite3_step\<close> is made and nothing is signalled.
\<close>

theorem Execute_makes_no_step:
  "Step demo_engine demo_statement [Call_open '':memory:'', Call_prepare_v2 1 ''SELECT 1'']
     = (Inr True, demo_statement,
        [Call_open '':memory:'', Call_prepare_v2 1 ''SELECT 1'', Call_step 5]) \<and>
   Execute NDEBUG demo_engine demo_statement [Call_open '':memory:'', Call_prepare_v2 1 ''SELECT 1'']
     = (Inr (), demo_statement, [Call_open '':memory:'', Call_prepare_v2 1 ''SELECT 1''])"
  by (simp add: Execute_eq Step_def Statement_GetAbi_def Get_def sqlite3_step_def demo_statement_def
      demo_engine_def SQLITE_ROW_def)

subsection \<open>Open\<close>

text \<open>
  C3. The claim: when the native open fails, \<^verbatim>\<open>Open\<close> raises a failure taken from the
  temporary's handle, leaves the connection as it was, and does not leak the temporary's
  handle; when it succeeds the connection owns the new handle. The lemmas
  \<open>InternalOpen_failure\<close> and \<open>InternalOpen_success\<close> above give the failure, the untouched
  object and the ownership after success, for every engine. The temporary's handle is
  leaked: on the concrete engine the open of a path that cannot be opened answers 14 and
  writes handle 2, the failure carries the code and message of handle 2, the connection is
  still the default one, and the trace ends with the two calls of the exception's
  constructor. \<^verbatim>\<open>sqlite3_close(2)\<close> is never invoked, since the release action of the
  temporary makes the call inside \<^verbatim>\<open>assert\<close>.
\<close>

theorem Open_failure_keeps_native_handle:
  "Open NDEBUG demo_engine ''/no/such/dir/db'' (Connection_default NDEBUG demo_engine) []
     = (Inl \<lparr>Result = 14, Message = ''unable to open database file''\<rparr>,
        Connection_default NDEBUG demo_engine,
        [Call_open ''/no/such/dir/db'', Call_extended_errcode 2, Call_errmsg 2]) \<and>
   count_list (snd (snd (Open NDEBUG demo_engine ''/no/such/dir/db''
                           (Connection_default NDEBUG demo_engine) []))) (Call_close 2) = 0"
proof -
  have "Open NDEBUG demo_engine ''/no/such/dir/db'' (Connection_default NDEBUG demo_engine) []
     = (Inl \<lparr>Result = 14, Message = ''unable to open database file''\<rparr>,
        Connection_default NDEBUG demo_engine,
        [Call_open ''/no/such/dir/db'', Call_extended_errcode 2, Call_errmsg 2])"
    by (simp add: Open_def
        InternalOpen_failure [where rc = 14 and p = 2 and t' = "[Call_open ''/no/such/dir/db'']"]
        sqlite3_open_def demo_engine_def SQLITE_OK_def nullptr_def)
  then show ?thesis by simp
qed

subsection \<open>Step\<close>

text \<open>
  C4. \<^verbatim>\<open>Step()\<close> makes one \<^verbatim>\<open>sqlite3_step\<close> on the statement's handle. It returns true
  when the native result is \<^verbatim>\<open>SQLITE_ROW\<close> and false when it is \<^verbatim>\<open>SQLITE_DONE\<close>. For every
  other native result it raises a failure whose code and message are read from the
  connection that \<^verbatim>\<open>sqlite3_db_handle\<close> gives for the statement's handle.
\<close>

theorem Step_tri_state:
  fixes E :: engine and this :: Statement and t :: trace
  defines "stmt \<equiv> m_value (stmt_handle this)"
  defines "t1 \<equiv> t @ [Call_step stmt]"
  defines "db \<equiv> db_handle_result E t1 stmt"
  defines "t2 \<equiv> t1 @ [Call_db_handle stmt]"
  shows "(step_result E t stmt = SQLITE_ROW \<longrightarrow> Step E this t = (Inr True, this, t1)) \<and>
         (step_result E t stmt = SQLITE_DONE \<longrightarrow> Step E this t = (Inr False, this, t1)) \<and>
         (step_result E t stmt \<noteq> SQLITE_ROW \<and> step_result E t stmt \<noteq> SQLITE_DONE \<longrightarrow>
            Step E this t =
              (Inl \<lparr>Result = extended_errcode_result E t2 db,
                    Message = errmsg_result E (t2 @ [Call_extended_errcode db]) db\<rparr>,
               this,
               t2 @ [Call_extended_errcode db, Call_errmsg db]))"
  unfolding stmt_def t1_def db_def t2_def
  by (simp add: Step_def Statement_GetAbi_def Get_def sqlite3_step_def Statement_ThrowLastError_eq
      SQLITE_ROW_def SQLITE_DONE_def Let_def)

theorem Step_tri_state_witness:
  "Step demo_engine demo_statement [] = (Inr True, demo_statement, [Call_step 5]) \<and>
   Step demo_engine demo_statement [Call_step 5]
     = (Inr False, demo_statement, [Call_step 5, Call_step 5]) \<and>
   Step demo_engine \<lparr>stmt_handle = \<lparr>m_value = 9\<rparr>\<rparr> []
     = (Inl \<lparr>Result = 1, Message = ''SQL logic error''\<rparr>, \<lparr>stmt_handle = \<lparr>m_value = 9\<rparr>\<rparr>,
        [Call_step 9, Call_db_handle 9, Call_extended_errcode 1, Call_errmsg 1])"
proof -
  have row: "step_result demo_engine [] (m_value (stmt_handle demo_statement)) = SQLITE_ROW"
    by (simp add: demo_engine_def demo_statement_def)
  have fin: "step_result demo_engine [Call_step 5] (m_value (stmt_handle demo_statement)) = SQLITE_DONE"
    by (simp add: demo_engine_def demo_statement_def)
  have other: "step_result demo_engine [] (m_value (stmt_handle \<lparr>stmt_handle = \<lparr>m_value = 9\<rparr>\<rparr>)) \<noteq> SQLITE_ROW \<and>
               step_result demo_engine [] (m_value (stmt_handle \<lparr>stmt_handle = \<lparr>m_value = 9\<rparr>\<rparr>)) \<noteq> SQLITE_DONE"
    by (simp add: demo_engine_def SQLITE_ROW_def SQLITE_DONE_def)
  have a: "Step demo_engine demo_statement [] = (Inr True, demo_statement, [Call_step 5])"
    using Step_tri_state [of demo_engine "[]" demo_statement] row
    by (simp add: demo_statement_def)
  have b: "Step demo_engine demo_statement [Call_step 5]
     = (Inr False, demo_statement, [Call_step 5, Call_step 5])"
    using Step_tri_state [of demo_engine "[Call_step 5]" demo_statement] fin
    by (simp add: demo_statement_def)
  have c: "Step demo_engine \<lparr>stmt_handle = \<lparr>m_value = 9\<rparr>\<rparr> []
     = (Inl \<lparr>Result = 1, Message = ''SQL logic error''\<rparr>, \<lparr>stmt_handle = \<lparr>m_value = 9\<rparr>\<rparr>,
        [Call_step 9, Call_db_handle 9, Call_extended_errcode 1, Call_errmsg 1])"
    using Step_tri_state [of demo_engine "[]" "\<lparr>stmt_handle = \<lparr>m_value = 9\<rparr>\<rparr>"] other
    by (simp add: demo_engine_def nullptr_def)
  show ?thesis using a b c by simp
qed

subsection \<open>Prepare\<close>

text \<open>
  C5. The claim: \<^verbatim>\<open>Prepare\<close> requires the connection to be open, which is checked
  defensively, and on a native result other than success raises a failure taken from the
  connection. The lemma \<open>InternalPrepare_failure\<close> above gives the second half for every
  engine. The check is not made: \<^verbatim>\<open>assert(connection)\<close> is dropped by the macro in both
  build configurations. On the concrete engine a default-constructed connection converts
  to false, and \<^verbatim>\<open>Prepare\<close> on it hands \<^verbatim>\<open>nullptr\<close> to \<^verbatim>\<open>sqlite3_prepare_v2\<close> and then to
  \<^verbatim>\<open>sqlite3_extended_errcode\<close> and \<^verbatim>\<open>sqlite3_errmsg\<close>; what the caller sees is the
  ordinary failure built from the engine's answers for a null connection.
\<close>

theorem Prepare_on_closed_connection_unchecked:
  "Connection_bool NDEBUG demo_engine (Connection_default NDEBUG demo_engine) []
     = (False, Connection_default NDEBUG demo_engine, []) \<and>
   Prepare NDEBUG demo_engine (Connection_default NDEBUG demo_engine) ''SELECT 1''
       (Statement_default NDEBUG demo_engine) []
     = (Inl \<lparr>Result = 7, Message = ''out of memory''\<rparr>,
        Statement_default NDEBUG demo_engine,
        [Call_prepare_v2 nullptr ''SELECT 1'', Call_extended_errcode nullptr, Call_errmsg nullptr])"
proof -
  have "Prepare NDEBUG demo_engine (Connection_default NDEBUG demo_engine) ''SELECT 1''
       (Statement_default NDEBUG demo_engine) []
     = (Inl \<lparr>Result = 7, Message = ''out of memory''\<rparr>,
        Statement_default NDEBUG demo_engine,
        [Call_prepare_v2 nullptr ''SELECT 1'', Call_extended_errcode nullptr, Call_errmsg nullptr])"
    by (simp add: Prepare_def
        InternalPrepare_failure [where rc = 21 and p = nullptr and t' = "[Call_prepare_v2 nullptr ''SELECT 1'']"]
        sqlite3_prepare_v2_def demo_engine_def SQLITE_OK_def Connection_default_def Handle_default_def
        ConnectionHandleTraits_def Statement_default_def StatementHandleTraits_def)
  moreover have "Connection_bool NDEBUG demo_engine (Connection_default NDEBUG demo_engine) []
     = (False, Connection_default NDEBUG demo_engine, [])"
    by (simp add: Connection_bool_def Handle_bool_def Connection_default_def Handle_default_def
        ConnectionHandleTraits_def)
  ultimately show ?thesis by simp
qed

subsection \<open>ThrowLastError\<close>

text \<open>
  C6. \<^verbatim>\<open>ThrowLastError()\<close> never returns normally. On a connection it raises the failure
  whose code is \<^verbatim>\<open>sqlite3_extended_errcode\<close> and whose message is \<^verbatim>\<open>sqlite3_errmsg\<close> of the
  connection's handle, read at the call; on a statement the two are read from the
  connection that \<^verbatim>\<open>sqlite3_db_handle\<close> gives for the statement's handle.
\<close>

theorem ThrowLastError_always_raises:
  fixes E :: engine and c :: Connection and s :: Statement and t :: trace
  defines "db \<equiv> m_value (m_handle c)"
  defines "stmt \<equiv> m_value (stmt_handle s)"
  defines "owner \<equiv> db_handle_result E t stmt"
  defines "t1 \<equiv> t @ [Call_db_handle stmt]"
  shows "Connection_ThrowLastError E c t =
           (Inl \<lparr>Result = extended_errcode_result E t db,
                 Message = errmsg_result E (t @ [Call_extended_errcode db]) db\<rparr>,
            c, t @ [Call_extended_errcode db, Call_errmsg db]) \<and>
         Statement_ThrowLastError E s t =
           (Inl \<lparr>Result = extended_errcode_result E t1 owner,
                 Message = errmsg_result E (t1 @ [Call_extended_errcode owner]) owner\<rparr>,
            s, t1 @ [Call_extended_errcode owner, Call_errmsg owner]) \<and>
         fst (Connection_GetAbi c t) = db \<and> fst (Statement_GetAbi s t) = stmt"
  unfolding db_def stmt_def owner_def t1_def
  by (simp add: Connection_ThrowLastError_eq Statement_ThrowLastError_eq Let_def
      Connection_GetAbi_def Statement_GetAbi_def Get_def)

subsection \<open>String lengths\<close>

text \<open>
  C7. For every column, \<^verbatim>\<open>GetStringLength\<close> returns what \<^verbatim>\<open>sqlite3_column_bytes\<close> returns,
  unchanged, and \<^verbatim>\<open>GetWideStringLength\<close> returns what \<^verbatim>\<open>sqlite3_column_bytes16\<close>
  returns divided by \<^verbatim>\<open>sizeof(wchar_t)\<close>. The second is stated for a byte length that is
  not negative, which a length is, and a unit size that is not zero.
\<close>

theorem string_lengths:
  fixes E :: engine and this :: Statement and t :: trace and column :: c_int
    and sizeof_wchar_t :: size_t
  defines "stmt \<equiv> m_value (stmt_handle this)"
  shows "fst (Statement_GetStringLength E column this t) = column_bytes_result E t stmt column \<and>
         (0 \<le> sint (column_bytes16_result E t stmt column) \<and> 0 < sizeof_wchar_t \<longrightarrow>
            sint (fst (Statement_GetWideStringLength sizeof_wchar_t E column this t))
              = sint (column_bytes16_result E t stmt column) div uint sizeof_wchar_t)"
  unfolding stmt_def
  by (simp add: Statement_GetStringLength_def GetStringLength_def Statement_GetWideStringLength_def
      GetWideStringLength_def Statement_GetAbi_def Get_def sqlite3_column_bytes_def
      sqlite3_column_bytes16_def sint_wide_length)

theorem string_lengths_witness:
  "0 \<le> sint (column_bytes16_result demo_engine [] 5 0) \<and> (0 :: size_t) < 4 \<and>
   fst (Statement_GetStringLength demo_engine 0 demo_statement []) = 1 \<and>
   sint (fst (Statement_GetWideStringLength 4 demo_engine 0 demo_statement [])) = 3"
proof -
  have h: "0 \<le> sint (column_bytes16_result demo_engine [] (m_value (stmt_handle demo_statement)) 0)
           \<and> (0 :: size_t) < 4"
    by (simp add: demo_engine_def)
  show ?thesis
    using string_lengths [of demo_engine 0 demo_statement "[]" 4] h
    by (simp add: demo_engine_def demo_statement_def)
qed

subsection \<open>The boolean conversion of a Connection\<close>

text \<open>
  C8. A Connection converts to true iff its handle is not the sentinel. A
  default-constructed Connection converts to false, and its \<^verbatim>\<open>GetAbi()\<close> returns the
  sentinel; neither call changes the trace, so no native call is made.
\<close>

theorem Connection_open_iff_handle:
  "fst (Connection_bool NDEBUG E c t) = (fst (Connection_GetAbi c t) \<noteq> nullptr) \<and>
   Connection_bool NDEBUG E (Connection_default NDEBUG E) t
     = (False, Connection_default NDEBUG E, t) \<and>
   Connection_GetAbi (Connection_default NDEBUG E) t = (nullptr, Connection_default NDEBUG E, t)"
  by (simp add: Connection_bool_def Connection_GetAbi_def Get_def Handle_bool_def
      Connection_default_def Handle_default_def ConnectionHandleTraits_def)

subsection \<open>Memory and WideMemory\<close>

text \<open>
  C9. The claim: \<^verbatim>\<open>Connection::Memory()\<close> opens the reserved path \<^verbatim>\<open>:memory:\<close> through the
  narrow entry point and \<^verbatim>\<open>Connection::WideMemory()\<close> opens it through the wide one, and
  each returns a connection usable for prepare and step without touching persistent
  storage. The narrow half holds on every engine (lemma \<open>Memory_eq\<close>, and the run of
  \<open>Memory_Prepare_Step\<close>), and the wide half holds where \<^verbatim>\<open>wchar_t\<close> has 2 bytes (lemmas
  \<open>WideMemory_eq\<close> and \<open>read_utf16_memory_2\<close>). Where \<^verbatim>\<open>wchar_t\<close> has 4 bytes the code does
  not do this: \<^verbatim>\<open>WideMemory()\<close> hands the array \<^verbatim>\<open>L":memory:"\<close> to \<^verbatim>\<open>sqlite3_open16\<close>, which
  reads UTF-16, and on a little-endian machine the second 16-bit unit of the first
  \<^verbatim>\<open>wchar_t\<close> is zero, so the text read is \<^verbatim>\<open>:\<close>. On the concrete engine the call opens the
  file named \<^verbatim>\<open>:\<close> as connection 3 and returns normally, and the reserved path is never
  opened.
\<close>

theorem WideMemory_four_byte_wchar_opens_file:
  "WideMemory NDEBUG 4 False demo_engine []
     = (Inr \<lparr>m_handle = \<lparr>m_value = 3\<rparr>\<rparr>, [Call_open16 (utf16 '':'')]) \<and>
   utf16 '':'' \<noteq> utf16 '':memory:'' \<and>
   count_list (snd (WideMemory NDEBUG 4 False demo_engine [])) (Call_open16 (utf16 '':memory:'')) = 0"
proof -
  have name: "read_utf16 4 False (L '':memory:'') = utf16 '':''"
    by (simp add: read_utf16_memory_4)
  have ans: "open16_result demo_engine [] (utf16 '':'') = (SQLITE_OK, 3)"
    by (simp add: demo_engine_def utf16_def)
  have run: "WideMemory NDEBUG 4 False demo_engine []
     = (Inr \<lparr>m_handle = \<lparr>m_value = 3\<rparr>\<rparr>, [Call_open16 (utf16 '':'')])"
    using WideMemory_eq [OF name ans, of NDEBUG] by simp
  have ne: "utf16 '':'' \<noteq> utf16 '':memory:''"
    by (simp add: utf16_def)
  show ?thesis
    using ne by (simp add: run)
qed

subsection \<open>Member functions that keep the handle\<close>


end
